theory Spec2Isabelle
  imports Complex_Main
begin

section \<open>Numeric model\<close>

text \<open>
  The repository is NumPy code on float64 arrays. A float64 is modelled as an exact
  real; rounding is outside the model. The special values appear only where the code can
  produce or test them: a value that may be NaN is a \<open>real option\<close> (\<open>None\<close> is NaN), and
  the quotient of a division that may divide by zero is an \<open>fl\<close>, which also has the two
  infinities. Python exceptions are values of type \<open>error\<close>, and a function that can raise
  returns \<open>error + 'a\<close>.
\<close>

datatype error = ValueError | IndexError | LinAlgError | ZeroDivisionError | UnboundLocalError

datatype fl = NaN | NInf | Fin real | PInf

text \<open>IEEE division of two finite floats (NumPy warns on a zero divisor, it does not raise).\<close>

definition fl_div :: "real \<Rightarrow> real \<Rightarrow> fl" where
  "fl_div a b =
     (if b \<noteq> 0 then Fin (a / b)
      else if 0 < a then PInf
      else if a < 0 then NInf
      else NaN)"

text \<open>IEEE \<open><\<close>: every comparison with NaN is false.\<close>

fun fl_less :: "fl \<Rightarrow> fl \<Rightarrow> bool" where
  "fl_less NaN _ = False"
| "fl_less _ NaN = False"
| "fl_less _ NInf = False"
| "fl_less NInf _ = True"
| "fl_less PInf _ = False"
| "fl_less (Fin a) (Fin b) = (a < b)"
| "fl_less (Fin a) PInf = True"

type_synonym nfloat = "real option"

type_synonym image = "real list list"

section \<open>nbed\_strain.py: fit\_nbed\_disks\<close>

text \<open>
  \<open>corr_image[reg]\<close> with
  \<open>reg = ((yy - posy) ** 2) + ((xx - posx) ** 2) <= (disk_size ** 2)\<close>:
  the pixels of the circular neighbourhood, in row-major order.
\<close>

definition in_disk :: "real \<Rightarrow> real \<Rightarrow> real \<Rightarrow> nat \<Rightarrow> nat \<Rightarrow> bool" where
  "in_disk disk_size posx posy yy xx =
     ((real yy - posy)\<^sup>2 + (real xx - posx)\<^sup>2 \<le> disk_size\<^sup>2)"

definition region_row :: "real \<Rightarrow> real \<Rightarrow> real \<Rightarrow> nat \<times> real list \<Rightarrow> real list" where
  "region_row disk_size posx posy r =
     map snd (filter (\<lambda>(xx, v). in_disk disk_size posx posy (fst r) xx) (enumerate 0 (snd r)))"

definition region :: "image \<Rightarrow> real \<Rightarrow> real \<Rightarrow> real \<Rightarrow> real list" where
  "region corr_image disk_size posx posy =
     concat (map (region_row disk_size posx posy) (enumerate 0 corr_image))"

text \<open>\<open>np.amax\<close> raises ValueError on an empty array.\<close>

fun amax :: "real list \<Rightarrow> error + real" where
  "amax [] = Inl ValueError"
| "amax (x # xs) = Inr (fold max xs x)"

text \<open>\<open>np.median\<close>: the middle of the sorted values, the mean of the two middle ones for an
  even count, NaN for no value.\<close>

definition median :: "real list \<Rightarrow> nfloat" where
  "median xs =
     (let s = sort xs; n = length s in
      if n = 0 then None
      else if odd n then Some (s ! (n div 2))
      else Some ((s ! (n div 2 - 1) + s ! (n div 2)) / 2))"

text \<open>\<open>peak_ratio = np.amax(corr_image[reg]) / np.median(corr_image[reg])\<close>\<close>

definition peak_ratio :: "real list \<Rightarrow> error + fl" where
  "peak_ratio vals =
     (case amax vals of
        Inl e \<Rightarrow> Inl e
      | Inr m \<Rightarrow> (case median vals of None \<Rightarrow> Inr NaN | Some d \<Rightarrow> Inr (fl_div m d)))"

text \<open>
  \<open>st.util.fit_gaussian2D_mask(corr_image, posx, posy, disk_size)\<close> is not among the
  source files: the masked Gaussian fit is a parameter \<open>fit\<close> of the model, returning the
  first two fitted parameters \<open>par[0:2]\<close>.
\<close>

type_synonym gaussfit = "image \<Rightarrow> real \<Rightarrow> real \<Rightarrow> real \<Rightarrow> nfloat \<times> nfloat"

text \<open>One pass of the loop \<open>for ii in range(no_pos)\<close>: the row written to
  \<open>fitted_disk_list[ii, 0:2]\<close>.\<close>

definition fit_disk ::
  "gaussfit \<Rightarrow> image \<Rightarrow> real \<Rightarrow> real \<Rightarrow> real \<times> real \<Rightarrow> error + (nfloat \<times> nfloat)" where
  "fit_disk fit corr_image disk_size nan_cutoff pos =
     (let posx = fst pos; posy = snd pos in
      case peak_ratio (region corr_image disk_size posx posy) of
        Inl e \<Rightarrow> Inl e
      | Inr ratio \<Rightarrow>
          if fl_less ratio (Fin (1 + nan_cutoff)) then Inr (None, None)
          else Inr (fit corr_image posx posy disk_size))"

fun fit_loop ::
  "gaussfit \<Rightarrow> image \<Rightarrow> real \<Rightarrow> real \<Rightarrow> (real \<times> real) list \<Rightarrow> error + (nfloat \<times> nfloat) list" where
  "fit_loop fit corr_image disk_size nan_cutoff [] = Inr []"
| "fit_loop fit corr_image disk_size nan_cutoff (pos # positions) =
     (case fit_disk fit corr_image disk_size nan_cutoff pos of
        Inl e \<Rightarrow> Inl e
      | Inr row \<Rightarrow>
          (case fit_loop fit corr_image disk_size nan_cutoff positions of
             Inl e \<Rightarrow> Inl e
           | Inr rows \<Rightarrow> Inr (row # rows)))"

text \<open>
  \<open>nancount = np.int(np.sum(np.isnan(fitted_disk_list)) / 2)\<close> counts NaN entries of the
  flattened array; the boolean mask \<open>~np.isnan(fitted_disk_list)\<close> selects entries of the
  flattened array, and \<open>reshape((no_pos - nancount), 2)\<close> raises ValueError when the number
  of selected entries is not \<open>2 * (no_pos - nancount)\<close>.
\<close>

definition flat2 :: "('a \<times> 'a) list \<Rightarrow> 'a list" where
  "flat2 rows = concat (map (\<lambda>r. [fst r, snd r]) rows)"

fun pairs :: "'a list \<Rightarrow> ('a \<times> 'a) list" where
  "pairs (a # b # xs) = (a, b) # pairs xs"
| "pairs _ = []"

definition reshape2 :: "'a list \<Rightarrow> nat \<Rightarrow> error + ('a \<times> 'a) list" where
  "reshape2 xs k = (if length xs = 2 * k then Inr (pairs xs) else Inl ValueError)"

definition nan_count :: "(nfloat \<times> nfloat) list \<Rightarrow> nat" where
  "nan_count fitted = length (filter (\<lambda>v. v = None) (flat2 fitted)) div 2"

definition mask_spots :: "(real \<times> real) list \<Rightarrow> (nfloat \<times> nfloat) list \<Rightarrow> real list" where
  "mask_spots diff_spots fitted =
     map fst (filter (\<lambda>p. snd p \<noteq> None) (zip (flat2 diff_spots) (flat2 fitted)))"

definition mask_fitted :: "(nfloat \<times> nfloat) list \<Rightarrow> real list" where
  "mask_fitted fitted = map the (filter (\<lambda>v. v \<noteq> None) (flat2 fitted))"

type_synonym mat2 = "(real \<times> real) \<times> (real \<times> real)"

text \<open>
  \<open>np.linalg.lstsq(a, b, rcond=None)\<close> for an \<open>m \<times> 2\<close> matrix \<open>a\<close> and an \<open>m \<times> 2\<close>
  matrix \<open>b\<close>, in exact arithmetic: the least-squares solution of minimal norm, that is
  the pseudo-inverse of \<open>a\<close> applied to \<open>b\<close>. With \<open>G = a\<^sup>T a\<close>: for \<open>a\<close> of rank 2 the
  solution of the normal equations, for rank 1 \<open>a\<^sup>T b / trace G\<close>, for \<open>a = 0\<close> zero.
  LinAlgError when the row counts differ.
\<close>

definition dot :: "real list \<Rightarrow> real list \<Rightarrow> real" where
  "dot xs ys = sum_list (map (\<lambda>p. fst p * snd p) (zip xs ys))"

definition lstsq :: "(real \<times> real) list \<Rightarrow> (real \<times> real) list \<Rightarrow> error + mat2" where
  "lstsq a b =
     (if length a \<noteq> length b then Inl LinAlgError
      else
        let a0 = map fst a; a1 = map snd a; b0 = map fst b; b1 = map snd b;
            g00 = dot a0 a0; g01 = dot a0 a1; g11 = dot a1 a1;
            h00 = dot a0 b0; h01 = dot a0 b1; h10 = dot a1 b0; h11 = dot a1 b1;
            d = g00 * g11 - g01 * g01; t = g00 + g11
        in if d \<noteq> 0 then
             Inr (((g11 * h00 - g01 * h10) / d, (g11 * h01 - g01 * h11) / d),
                  ((g00 * h10 - g01 * h00) / d, (g00 * h11 - g01 * h01) / d))
           else if t \<noteq> 0 then Inr ((h00 / t, h01 / t), (h10 / t, h11 / t))
           else Inr ((0, 0), (0, 0)))"

text \<open>\<open>np.matmul\<close> of an \<open>m \<times> 2\<close> matrix with a \<open>2 \<times> 2\<close> matrix, and of two
  \<open>2 \<times> 2\<close> matrices.\<close>

definition row_mul :: "real \<times> real \<Rightarrow> mat2 \<Rightarrow> real \<times> real" where
  "row_mul r m =
     (fst r * fst (fst m) + snd r * fst (snd m), fst r * snd (fst m) + snd r * snd (snd m))"

definition matmul_n2 :: "(real \<times> real) list \<Rightarrow> mat2 \<Rightarrow> (real \<times> real) list" where
  "matmul_n2 a m = map (\<lambda>r. row_mul r m) a"

definition matmul2 :: "mat2 \<Rightarrow> mat2 \<Rightarrow> mat2" where
  "matmul2 a b = (row_mul (fst a) b, row_mul (snd a) b)"

text \<open>\<open>np.std\<close>: the population standard deviation, NaN for no value.\<close>

definition mean :: "real list \<Rightarrow> real" where
  "mean xs = sum_list xs / real (length xs)"

definition np_std :: "real list \<Rightarrow> nfloat" where
  "np_std xs = (if xs = [] then None else Some (sqrt (mean (map (\<lambda>x. (x - mean xs)\<^sup>2) xs))))"

text \<open>\<open>np.std(np.divide(disk_locations[np.where(calc_points[:, j] != 0), j],
  calc_points[np.where(calc_points[:, j] != 0), j]))\<close> for one column \<open>j\<close>.\<close>

definition ratio_std :: "real list \<Rightarrow> real list \<Rightarrow> nfloat" where
  "ratio_std locs calc =
     np_std (map (\<lambda>p. fst p / snd p) (filter (\<lambda>p. snd p \<noteq> 0) (zip locs calc)))"

text \<open>
  The four values returned by \<open>fit_nbed_disks\<close>. \<open>None\<close> stands for \<open>np.nan\<close> (for
  \<open>center_position\<close> also for the all-NaN array \<open>np.nan * np.ones((1, 2))\<close>).
\<close>

record fit_result =
  fitted_disk_list :: "(nfloat \<times> nfloat) list"
  center_position :: "(real \<times> real) option"
  fit_deviation :: "(nfloat \<times> nfloat) option"
  lcbed :: "mat2 option"

text \<open>\<open>disk_locations[:, 1] = (-1) * disk_locations[:, 1]\<close>\<close>

definition flip_y :: "(real \<times> real) list \<Rightarrow> (real \<times> real) list" where
  "flip_y rows = map (\<lambda>p. (fst p, - snd p)) rows"

text \<open>\<open>center = disk_locations[np.logical_and((diff_spots[:, 0] == 0),
  (diff_spots[:, 1] == 0)), :]\<close>\<close>

definition center_rows :: "(real \<times> real) list \<Rightarrow> (real \<times> real) list \<Rightarrow> (real \<times> real) list" where
  "center_rows diff_spots disk_locations =
     map snd (filter (\<lambda>p. fst (fst p) = 0 \<and> snd (fst p) = 0) (zip diff_spots disk_locations))"

text \<open>\<open>disk_locations[:, 0:2] = disk_locations[:, 0:2] - np.asarray((cx, cy))\<close>\<close>

definition translate :: "real \<times> real \<Rightarrow> (real \<times> real) list \<Rightarrow> (real \<times> real) list" where
  "translate c rows = map (\<lambda>p. (fst p - fst c, snd p - snd c)) rows"

text \<open>Lines 479 to 513: the lattice fit on the rows that are left after the NaN rows
  were removed (\<open>0 < no_pos\<close> here, since \<open>nancount \<noteq> no_pos\<close>).\<close>

definition fit_lattice ::
  "nat \<Rightarrow> nat \<Rightarrow> (real \<times> real) list \<Rightarrow> (real \<times> real) list \<Rightarrow> error + fit_result" where
  "fit_lattice no_pos nancount diff_spots fitted =
     (let disk_locations = flip_y fitted;
          center = center_rows diff_spots disk_locations;
          kept = map (\<lambda>p. (Some (fst p), Some (snd p))) fitted
      in case center of
           [] \<Rightarrow> Inr \<lparr>fitted_disk_list = kept, center_position = None,
                      fit_deviation = None, lcbed = None\<rparr>
         | c # _ \<Rightarrow>
             let cx = fst c; cy = snd c in
             if real nancount / real no_pos < 1 / 2 then
               let rel = translate (cx, cy) disk_locations in
               case lstsq diff_spots rel of
                 Inl e \<Rightarrow> Inl e
               | Inr lc \<Rightarrow>
                   let calc_points = matmul_n2 diff_spots lc;
                       stdx = ratio_std (map fst rel) (map fst calc_points);
                       stdy = ratio_std (map snd rel) (map snd calc_points)
                   in Inr \<lparr>fitted_disk_list = kept, center_position = Some (cx, - cy),
                            fit_deviation = Some (stdx, stdy), lcbed = Some lc\<rparr>
             else Inr \<lparr>fitted_disk_list = kept, center_position = Some (cx, - cy),
                        fit_deviation = None, lcbed = None\<rparr>)"

definition fit_nbed_disks ::
  "gaussfit \<Rightarrow> image \<Rightarrow> real \<Rightarrow> (real \<times> real) list \<Rightarrow> (real \<times> real) list \<Rightarrow> real
     \<Rightarrow> error + fit_result" where
  "fit_nbed_disks fit corr_image disk_size positions diff_spots nan_cutoff =
     (let no_pos = length positions in
      case fit_loop fit corr_image disk_size nan_cutoff positions of
        Inl e \<Rightarrow> Inl e
      | Inr fitted \<Rightarrow>
          let nancount = nan_count fitted in
          if nancount = no_pos then
            Inr \<lparr>fitted_disk_list = fitted, center_position = None,
                  fit_deviation = None, lcbed = None\<rparr>
          else if length diff_spots \<noteq> no_pos then Inl IndexError
          else
            case reshape2 (mask_spots diff_spots fitted) (no_pos - nancount) of
              Inl e \<Rightarrow> Inl e
            | Inr spots \<Rightarrow>
                (case reshape2 (mask_fitted fitted) (no_pos - nancount) of
                   Inl e \<Rightarrow> Inl e
                 | Inr rows \<Rightarrow> fit_lattice no_pos nancount spots rows))"

text \<open>A stand-in for the Gaussian fit that returns the initial guess; used to run the
  model on concrete inputs.\<close>

definition fit_guess :: gaussfit where
  "fit_guess corr_image posx posy disk_size = (Some posx, Some posy)"

text \<open>
  The NaN masking seen by rows, for a \<open>fitted_disk_list\<close> whose rows are either both NaN or
  both numbers: the rows that are left, and the Miller indices that are left.
\<close>

definition row_ok :: "nfloat \<times> nfloat \<Rightarrow> bool" where
  "row_ok r = ((fst r = None) = (snd r = None))"

definition fitted_rows :: "(nfloat \<times> nfloat) list \<Rightarrow> (real \<times> real) list" where
  "fitted_rows fitted =
     map (\<lambda>r. (the (fst r), the (snd r))) (filter (\<lambda>r. fst r \<noteq> None) fitted)"

definition fitted_spots :: "(real \<times> real) list \<Rightarrow> (nfloat \<times> nfloat) list \<Rightarrow> (real \<times> real) list" where
  "fitted_spots diff_spots fitted =
     map fst (filter (\<lambda>p. fst (snd p) \<noteq> None) (zip diff_spots fitted))"

definition nan_rows :: "(nfloat \<times> nfloat) list \<Rightarrow> nat" where
  "nan_rows fitted = length (filter (\<lambda>r. fst r = None) fitted)"

text \<open>All four returned values are all-NaN.\<close>

definition all_nan :: "fit_result \<Rightarrow> bool" where
  "all_nan res =
     (list_all (\<lambda>r. fst r = None \<and> snd r = None) (fitted_disk_list res) \<and>
      center_position res = None \<and> fit_deviation res = None \<and> lcbed res = None)"


section \<open>nbed\_strain.py: the strain assemblers\<close>

text \<open>
  \<open>np.linalg.inv\<close> of a \<open>2 \<times> 2\<close> matrix in exact arithmetic: the inverse, and
  LinAlgError for a singular matrix.
\<close>

definition det2 :: "mat2 \<Rightarrow> real" where
  "det2 m = fst (fst m) * snd (snd m) - snd (fst m) * fst (snd m)"

definition inverse2 :: "mat2 \<Rightarrow> mat2" where
  "inverse2 m =
     ((snd (snd m) / det2 m, - snd (fst m) / det2 m),
      (- fst (snd m) / det2 m, fst (fst m) / det2 m))"

definition linalg_inv :: "mat2 \<Rightarrow> error + mat2" where
  "linalg_inv m = (if det2 m = 0 then Inl LinAlgError else Inr (inverse2 m))"

definition i_matrix :: mat2 where
  "i_matrix = ((1, 0), (0, 1))"

definition mat_sub :: "mat2 \<Rightarrow> mat2 \<Rightarrow> mat2" where
  "mat_sub a b =
     ((fst (fst a) - fst (fst b), snd (fst a) - snd (fst b)),
      (fst (snd a) - fst (snd b), snd (snd a) - snd (snd b)))"

text \<open>The four strain components of one scan point.\<close>

record strain =
  e_xx :: real
  e_xy :: real
  e_th :: real
  e_yy :: real

text \<open>Lines 648 to 653 of \<open>strain_in_ROI\<close> (the same lines are in \<open>strain_log\<close> and
  \<open>strain_oldstyle\<close>).\<close>

definition strain_components :: "mat2 \<Rightarrow> mat2 \<Rightarrow> strain" where
  "strain_components pattern_axes inverse_axes =
     (let t_pattern = matmul2 pattern_axes inverse_axes;
          s_pattern = mat_sub t_pattern i_matrix
      in \<lparr>e_xx = - fst (fst s_pattern),
          e_xy = - (snd (fst s_pattern) + fst (snd s_pattern)),
          e_th = snd (fst s_pattern) - fst (snd s_pattern),
          e_yy = - snd (snd s_pattern)\<rparr>)"

text \<open>
  The reference definition, in the words of the specification: with
  \<open>T = observedBasis \<cdot> inverse(referenceBasis)\<close> and \<open>S = T - I\<close>, the components are
  \<open>e_xx = -S[0,0]\<close>, \<open>e_yy = -S[1,1]\<close>, \<open>e_xy = -(S[0,1] + S[1,0])\<close> and
  \<open>e_theta = S[0,1] - S[1,0]\<close>; there is no strain for a singular reference basis.
\<close>

definition strainFrom :: "mat2 \<Rightarrow> mat2 \<Rightarrow> strain option" where
  "strainFrom observedBasis referenceBasis =
     (if det2 referenceBasis = 0 then None
      else
        let T = matmul2 observedBasis (inverse2 referenceBasis);
            S00 = fst (fst T) - 1; S01 = snd (fst T);
            S10 = fst (snd T); S11 = snd (snd T) - 1
        in Some \<lparr>e_xx = - S00, e_xy = - (S01 + S10), e_th = S01 - S10, e_yy = - S11\<rparr>)"

text \<open>
  One pass of the loop \<open>for ii in range(int(no_of_disks))\<close> of \<open>strain_in_ROI\<close>. The
  filters and the cross correlation (\<open>st.util.sobel\<close>, \<open>st.util.image_logarizer\<close>,
  \<open>st.util.cross_corr\<close>) are not among the source files: the map \<open>lsc\<close> from a diffraction
  pattern to its correlation image \<open>lsc_pattern\<close> is a parameter. The result is the entry
  of the arrays \<open>e_xx_ROI\<close>, \<open>e_xy_ROI\<close>, \<open>e_th_ROI\<close>, \<open>e_yy_ROI\<close> (\<open>None\<close>: the four are
  left NaN) and the row of \<open>fit_std\<close>.
\<close>

definition std_row :: "(nfloat \<times> nfloat) option \<Rightarrow> nfloat \<times> nfloat" where
  "std_row std = (case std of None \<Rightarrow> (None, None) | Some r \<Rightarrow> r)"

definition strain_point ::
  "gaussfit \<Rightarrow> ('p \<Rightarrow> image) \<Rightarrow> real \<Rightarrow> (real \<times> real) list \<Rightarrow> (real \<times> real) list \<Rightarrow> real
     \<Rightarrow> mat2 \<Rightarrow> 'p \<Rightarrow> error + (strain option \<times> (nfloat \<times> nfloat))" where
  "strain_point fit lsc disk_size disk_list pos_list nan_cutoff inverse_axes pattern =
     (case fit_nbed_disks fit (lsc pattern) disk_size disk_list pos_list nan_cutoff of
        Inl e \<Rightarrow> Inl e
      | Inr res \<Rightarrow>
          (case lcbed res of
             None \<Rightarrow> Inr (None, (None, None))
           | Some pattern_axes \<Rightarrow>
               Inr (Some (strain_components pattern_axes inverse_axes),
                    std_row (fit_deviation res))))"

fun strain_loop ::
  "gaussfit \<Rightarrow> ('p \<Rightarrow> image) \<Rightarrow> real \<Rightarrow> (real \<times> real) list \<Rightarrow> (real \<times> real) list \<Rightarrow> real
     \<Rightarrow> mat2 \<Rightarrow> 'p list \<Rightarrow> error + (strain option \<times> (nfloat \<times> nfloat)) list" where
  "strain_loop fit lsc disk_size disk_list pos_list nan_cutoff inverse_axes [] = Inr []"
| "strain_loop fit lsc disk_size disk_list pos_list nan_cutoff inverse_axes (pattern # patterns) =
     (case strain_point fit lsc disk_size disk_list pos_list nan_cutoff inverse_axes pattern of
        Inl e \<Rightarrow> Inl e
      | Inr p \<Rightarrow>
          (case strain_loop fit lsc disk_size disk_list pos_list nan_cutoff inverse_axes patterns of
             Inl e \<Rightarrow> Inl e
           | Inr ps \<Rightarrow> Inr (p # ps)))"

text \<open>
  Lines 616 to 628: the inverse of the reference axes. Without reference axes
  (\<open>np.size(reference_axes) < 2\<close>, here \<open>None\<close>) they are fitted on the correlation image of
  the mean pattern, \<open>lsc_mean\<close> (a parameter, as \<open>lsc\<close>), with the default \<open>nan_cutoff = 0\<close>;
  \<open>np.linalg.inv\<close> raises LinAlgError on the scalar \<open>np.nan\<close>.
\<close>

definition reference_inverse ::
  "gaussfit \<Rightarrow> ('p list \<Rightarrow> image) \<Rightarrow> real \<Rightarrow> (real \<times> real) list \<Rightarrow> (real \<times> real) list
     \<Rightarrow> mat2 option \<Rightarrow> 'p list \<Rightarrow> error + mat2" where
  "reference_inverse fit lsc_mean disk_size disk_list pos_list reference_axes data4D_ROI =
     (case reference_axes of
        None \<Rightarrow>
          (case fit_nbed_disks fit (lsc_mean data4D_ROI) disk_size disk_list pos_list 0 of
             Inl e \<Rightarrow> Inl e
           | Inr res \<Rightarrow>
               (case lcbed res of None \<Rightarrow> Inl LinAlgError | Some mean_axes \<Rightarrow> linalg_inv mean_axes))
      | Some axes \<Rightarrow> linalg_inv axes)"

text \<open>
  \<open>data4D[:, :, scan_y[ROI], scan_x[ROI]]\<close>: the patterns of the scan points inside the
  region of interest, in row-major order; the scan grid is a list of rows of patterns.
  IndexError when the mask has another shape than the scan grid.
\<close>

definition roi_select :: "bool list list \<Rightarrow> 'p list list \<Rightarrow> error + 'p list" where
  "roi_select ROI data4D =
     (if map length ROI = map length data4D
      then Inr (map snd (filter fst (zip (concat ROI) (concat data4D))))
      else Inl IndexError)"

text \<open>
  \<open>e_map = np.nan * np.ones_like(scan_y); e_map[ROI] = e_ROI\<close>: the values are written to
  the pixels of the mask in row-major order, the other pixels keep the default.
\<close>

fun scatter :: "bool list \<Rightarrow> 'a list \<Rightarrow> 'a \<Rightarrow> 'a list" where
  "scatter [] vs d = []"
| "scatter (False # m) vs d = d # scatter m vs d"
| "scatter (True # m) [] d = d # scatter m [] d"
| "scatter (True # m) (v # vs) d = v # scatter m vs d"

definition count_true :: "bool list \<Rightarrow> nat" where
  "count_true m = length (filter (\<lambda>b. b) m)"

fun scatter_rows :: "bool list list \<Rightarrow> 'a list \<Rightarrow> 'a \<Rightarrow> 'a list list" where
  "scatter_rows [] vs d = []"
| "scatter_rows (r # rs) vs d =
     scatter r (take (count_true r) vs) d # scatter_rows rs (drop (count_true r) vs) d"

text \<open>\<open>e_map[np.isnan(e_map)] = 0\<close>\<close>

definition nan_to_zero :: "nfloat list list \<Rightarrow> image" where
  "nan_to_zero m = map (map (\<lambda>v. case v of None \<Rightarrow> 0 | Some x \<Rightarrow> x)) m"

text \<open>One strain map before it is smoothed (lines 654 and 655, and the same for the
  other three maps).\<close>

definition strain_map :: "bool list list \<Rightarrow> nfloat list \<Rightarrow> image" where
  "strain_map ROI e_ROI = nan_to_zero (scatter_rows ROI e_ROI None)"

text \<open>
  \<open>scipy.ndimage.gaussian_filter(input, 1)\<close>, with SciPy's defaults \<open>order = 0\<close>,
  \<open>mode = 'reflect'\<close>, \<open>truncate = 4.0\<close>: the kernel has radius \<open>int(4.0 * 1 + 0.5) = 4\<close> and
  the normalised weights \<open>exp(-k\<^sup>2 / 2)\<close>; the array is correlated with it along axis 0,
  then along axis 1; an index outside the array is reflected about the edge of the last
  pixel (\<open>d c b a | a b c d | d c b a\<close>).
\<close>

definition gauss_phi :: "int \<Rightarrow> real" where
  "gauss_phi k = exp (- (real_of_int k)\<^sup>2 / 2)"

definition gauss_weight :: "int \<Rightarrow> real" where
  "gauss_weight k = gauss_phi k / sum_list (map gauss_phi [-4..4])"

definition reflect :: "nat \<Rightarrow> int \<Rightarrow> nat" where
  "reflect n i = (let j = nat (i mod (2 * int n)) in if j < n then j else 2 * n - 1 - j)"

definition correlate1d :: "real list \<Rightarrow> real list" where
  "correlate1d xs =
     map (\<lambda>i. sum_list (map (\<lambda>k. gauss_weight k * xs ! reflect (length xs) (int i + k)) [-4..4]))
       [0..<length xs]"

definition gaussian_filter :: "image \<Rightarrow> image" where
  "gaussian_filter m =
     (if concat m = [] then m
      else map correlate1d (transpose (map correlate1d (transpose m))))"

text \<open>
  The value returned by \<open>strain_in_ROI\<close>. \<open>disk_size\<close> stands for
  \<open>(np.sum(st.util.image_normalizer(center_disk)) / np.pi) ** 0.5\<close>; \<open>med_factor\<close>,
  \<open>gauss_val\<close> and \<open>hybrid_cc\<close> are arguments of the filters behind \<open>lsc\<close>.
\<close>

record strain_maps =
  e_xx_map :: image
  e_xy_map :: image
  e_th_map :: image
  e_yy_map :: image
  fit_std :: "(nfloat \<times> nfloat) list"

text \<open>The four maps after the NaN entries were set to zero and before they are smoothed.\<close>

definition strain_maps_unsmoothed ::
  "gaussfit \<Rightarrow> ('p \<Rightarrow> image) \<Rightarrow> ('p list \<Rightarrow> image) \<Rightarrow> 'p list list \<Rightarrow> bool list list \<Rightarrow> real
     \<Rightarrow> (real \<times> real) list \<Rightarrow> (real \<times> real) list \<Rightarrow> mat2 option \<Rightarrow> real
     \<Rightarrow> error + strain_maps" where
  "strain_maps_unsmoothed fit lsc lsc_mean data4D ROI disk_size disk_list pos_list
       reference_axes nan_cutoff =
     (case roi_select ROI data4D of
        Inl e \<Rightarrow> Inl e
      | Inr data4D_ROI \<Rightarrow>
          (case reference_inverse fit lsc_mean disk_size disk_list pos_list reference_axes
                  data4D_ROI of
             Inl e \<Rightarrow> Inl e
           | Inr inverse_axes \<Rightarrow>
               (case strain_loop fit lsc disk_size disk_list pos_list nan_cutoff inverse_axes
                       data4D_ROI of
                  Inl e \<Rightarrow> Inl e
                | Inr points \<Rightarrow>
                    Inr \<lparr>e_xx_map = strain_map ROI (map (\<lambda>p. map_option e_xx (fst p)) points),
                         e_xy_map = strain_map ROI (map (\<lambda>p. map_option e_xy (fst p)) points),
                         e_th_map = strain_map ROI (map (\<lambda>p. map_option e_th (fst p)) points),
                         e_yy_map = strain_map ROI (map (\<lambda>p. map_option e_yy (fst p)) points),
                         fit_std = map snd points\<rparr>)))"

definition smooth_maps :: "strain_maps \<Rightarrow> strain_maps" where
  "smooth_maps m =
     \<lparr>e_xx_map = gaussian_filter (e_xx_map m), e_xy_map = gaussian_filter (e_xy_map m),
      e_th_map = gaussian_filter (e_th_map m), e_yy_map = gaussian_filter (e_yy_map m),
      fit_std = fit_std m\<rparr>"

definition strain_in_ROI ::
  "gaussfit \<Rightarrow> ('p \<Rightarrow> image) \<Rightarrow> ('p list \<Rightarrow> image) \<Rightarrow> 'p list list \<Rightarrow> bool list list \<Rightarrow> real
     \<Rightarrow> (real \<times> real) list \<Rightarrow> (real \<times> real) list \<Rightarrow> mat2 option \<Rightarrow> real
     \<Rightarrow> error + strain_maps" where
  "strain_in_ROI fit lsc lsc_mean data4D ROI disk_size disk_list pos_list reference_axes
       nan_cutoff =
     (case strain_maps_unsmoothed fit lsc lsc_mean data4D ROI disk_size disk_list pos_list
             reference_axes nan_cutoff of
        Inl e \<Rightarrow> Inl e
      | Inr m \<Rightarrow> Inr (smooth_maps m))"

text \<open>
  Lines 1097 to 1103 of \<open>strain4D_general\<close>, for one scan point: \<open>peaks_mean\<close> and
  \<open>peaks_scan\<close> are the positions of the higher-order disks relative to the central disk
  in the mean pattern and in the pattern of the scan point, \<open>rotangle\<close> is in degrees.
\<close>

definition strain4D_point ::
  "(real \<times> real) list \<Rightarrow> (real \<times> real) list \<Rightarrow> real \<Rightarrow> error + strain" where
  "strain4D_point peaks_mean peaks_scan rotangle =
     (let r = rotangle * pi / 180;
          rotmatrix = ((cos r, - sin r), (sin r, cos r))
      in case lstsq peaks_mean peaks_scan of
           Inl e \<Rightarrow> Inl e
         | Inr sol \<Rightarrow>
             let scan_strain = mat_sub (matmul2 sol rotmatrix) i_matrix
             in Inr \<lparr>e_xx = fst (fst scan_strain),
                     e_xy = (snd (fst scan_strain) + fst (snd scan_strain)) / 2,
                     e_th = (snd (fst scan_strain) - fst (snd scan_strain)) / 2,
                     e_yy = snd (snd scan_strain)\<rparr>)"

text \<open>A stand-in for the filters and the cross correlation: the pattern is its own
  correlation image; used to run the model on concrete inputs.\<close>

definition lsc_id :: "image \<Rightarrow> image" where
  "lsc_id pattern = pattern"

definition lsc_mean_first :: "image list \<Rightarrow> image" where
  "lsc_mean_first patterns = (case patterns of [] \<Rightarrow> [] | p # _ \<Rightarrow> p)"

text \<open>The index, in row-major order, of the pixel \<open>(y, x)\<close> among the pixels of the
  mask: the position of its value in the arrays over the region of interest.\<close>

definition roi_index :: "bool list list \<Rightarrow> nat \<Rightarrow> nat \<Rightarrow> nat" where
  "roi_index ROI y x = count_true (concat (take y ROI)) + count_true (take x (ROI ! y))"

section \<open>Properties of the contrast test\<close>

lemma amax_Max: "vals \<noteq> [] \<Longrightarrow> amax vals = Inr (Max (set vals))"
  by (cases vals) (simp_all add: Max.set_eq_fold[symmetric])

lemma median_bounds:
  assumes "vals \<noteq> []"
  shows "\<exists>d. median vals = Some d \<and> Min (set vals) \<le> d \<and> d \<le> Max (set vals)"
proof -
  let ?s = "sort vals"
  let ?n = "length ?s"
  have n: "0 < ?n" using assms by simp
  have ne: "?s \<noteq> []" using n by fastforce
  have mem: "\<And>i. i < ?n \<Longrightarrow> Min (set vals) \<le> ?s ! i \<and> ?s ! i \<le> Max (set vals)"
  proof -
    fix i assume "i < ?n"
    then have "?s ! i \<in> set ?s" by (rule nth_mem)
    then have "?s ! i \<in> set vals" by simp
    then show "Min (set vals) \<le> ?s ! i \<and> ?s ! i \<le> Max (set vals)" by simp
  qed
  show ?thesis
  proof (cases "odd ?n")
    case True
    have "?n div 2 < ?n" using n by simp
    from mem[OF this] True n ne show ?thesis by (simp add: median_def Let_def)
  next
    case False
    have a: "?n div 2 < ?n" using n by simp
    have b: "?n div 2 - 1 < ?n" using n by arith
    let ?d = "(?s ! (?n div 2 - 1) + ?s ! (?n div 2)) / 2"
    have "median vals = Some ?d" using False ne by (simp add: median_def Let_def)
    moreover have "Min (set vals) \<le> ?d" using mem[OF a] mem[OF b] by (auto simp: field_simps)
    moreover have "?d \<le> Max (set vals)" using mem[OF a] mem[OF b] by (auto simp: field_simps)
    ultimately show ?thesis by blast
  qed
qed


lemma peak_ratio_Nil: "peak_ratio [] = Inl ValueError"
  by (simp add: peak_ratio_def)

lemma peak_ratio_positive:
  assumes "vals \<noteq> []" and "\<forall>v\<in>set vals. 0 < v"
  shows "\<exists>q. peak_ratio vals = Inr (Fin q) \<and> 1 \<le> q"
proof -
  from median_bounds[OF assms(1)] obtain d where
    d: "median vals = Some d" "Min (set vals) \<le> d" "d \<le> Max (set vals)" by blast
  have "Min (set vals) \<in> set vals" using assms(1) by (intro Min_in) simp_all
  then have "0 < Min (set vals)" using assms(2) by blast
  then have dpos: "0 < d" using d(2) by linarith
  then have "1 \<le> Max (set vals) / d" using d(3) by simp
  moreover have "peak_ratio vals = Inr (Fin (Max (set vals) / d))"
    using amax_Max[OF assms(1)] d(1) dpos by (simp add: peak_ratio_def fl_div_def)
  ultimately show ?thesis by blast
qed

text \<open>
  Claim C9. With \<open>nan_cutoff = 0\<close> and every pixel of the correlation map inside the disk's
  circular neighbourhood strictly positive, the ratio of maximum to median is at least 1,
  so the branch that marks the disk unfit is not taken: the row of the disk is the result of
  the Gaussian fit. (For a neighbourhood without any pixel \<open>np.amax\<close> raises before the
  branch is reached.)
\<close>

theorem positive_disk_is_fitted:
  assumes "\<forall>v\<in>set (region corr_image disk_size (fst pos) (snd pos)). 0 < v"
  shows "fit_disk fit corr_image disk_size 0 pos =
           (if region corr_image disk_size (fst pos) (snd pos) = [] then Inl ValueError
            else Inr (fit corr_image (fst pos) (snd pos) disk_size))"
proof (cases "region corr_image disk_size (fst pos) (snd pos) = []")
  case True
  then show ?thesis by (simp add: fit_disk_def peak_ratio_Nil)
next
  case False
  from peak_ratio_positive[OF False assms] obtain q where
    "peak_ratio (region corr_image disk_size (fst pos) (snd pos)) = Inr (Fin q)" "1 \<le> q"
    by blast
  with False show ?thesis by (simp add: fit_disk_def)
qed

lemmas region_defs = region_def region_row_def in_disk_def enumerate_eq_zip

theorem positive_disk_is_fitted_witness:
  "fit_disk fit_guess [[2, 1], [1, 1]] 1 0 (0, 0) = Inr (Some 0, Some 0)"
proof -
  have r: "region [[2, 1], [1, 1]] 1 (fst (0::real, 0::real)) (snd (0::real, 0::real)) = [2, 1, 1]"
    by (simp add: region_defs upt_rec)
  show ?thesis
    using positive_disk_is_fitted [of "[[2, 1], [1, 1]]" 1 "(0, 0)" fit_guess]
    unfolding r by (simp add: fit_guess_def)
qed

lemma fit_loop_Inr_length:
  "fit_loop fit corr_image disk_size nan_cutoff positions = Inr rows \<Longrightarrow>
     length rows = length positions"
  by (induction positions arbitrary: rows) (auto split: sum.splits)





section \<open>Properties of fit\_nbed\_disks\<close>

lemma flat2_Nil [simp]: "flat2 [] = []"
  by (simp add: flat2_def)

lemma flat2_Cons [simp]: "flat2 (r # rs) = fst r # snd r # flat2 rs"
  by (simp add: flat2_def)

lemma length_flat2 [simp]: "length (flat2 rows) = 2 * length rows"
  by (induction rows) simp_all

lemma pairs_flat2 [simp]: "pairs (flat2 rows) = rows"
  by (induction rows) simp_all

lemma reshape2_flat2: "k = length rows \<Longrightarrow> reshape2 (flat2 rows) k = Inr rows"
  by (simp add: reshape2_def)

lemma nan_count_rows:
  "\<forall>r\<in>set fitted. row_ok r \<Longrightarrow> nan_count fitted = nan_rows fitted"
proof -
  assume ok: "\<forall>r\<in>set fitted. row_ok r"
  then have "length (filter (\<lambda>v. v = None) (flat2 fitted)) = 2 * nan_rows fitted"
    by (induction fitted) (auto simp: row_ok_def nan_rows_def)
  then show ?thesis by (simp add: nan_count_def)
qed

lemma mask_fitted_rows:
  "\<forall>r\<in>set fitted. row_ok r \<Longrightarrow> mask_fitted fitted = flat2 (fitted_rows fitted)"
  by (induction fitted) (auto simp: row_ok_def mask_fitted_def fitted_rows_def)

lemma mask_spots_rows:
  "length diff_spots = length fitted \<Longrightarrow> \<forall>r\<in>set fitted. row_ok r \<Longrightarrow>
     mask_spots diff_spots fitted = flat2 (fitted_spots diff_spots fitted)"
proof (induction diff_spots fitted rule: list_induct2)
  case Nil
  then show ?case by (simp add: mask_spots_def fitted_spots_def)
next
  case (Cons s ss r rs)
  then have "mask_spots ss rs = flat2 (fitted_spots ss rs)" by simp
  moreover have "row_ok r" using Cons.prems by simp
  ultimately show ?case
    by (auto simp: mask_spots_def fitted_spots_def row_ok_def)
qed

lemma length_fitted_rows: "length (fitted_rows fitted) = length fitted - nan_rows fitted"
proof -
  have "length (filter (\<lambda>r. fst r = None) fitted) + length (filter (\<lambda>r. fst r \<noteq> None) fitted)
          = length fitted"
    using sum_length_filter_compl [of "\<lambda>r. fst r = None" fitted] by simp
  then show ?thesis by (simp add: fitted_rows_def nan_rows_def)
qed

lemma length_fitted_spots:
  "length diff_spots = length fitted \<Longrightarrow>
     length (fitted_spots diff_spots fitted) = length (fitted_rows fitted)"
  by (induction diff_spots fitted rule: list_induct2) (auto simp: fitted_spots_def fitted_rows_def)

lemma nan_rows_all: "nan_rows fitted = length fitted \<longleftrightarrow> (\<forall>r\<in>set fitted. fst r = None)"
proof
  assume eq: "nan_rows fitted = length fitted"
  show "\<forall>r\<in>set fitted. fst r = None"
  proof (rule ccontr)
    assume "\<not> (\<forall>r\<in>set fitted. fst r = None)"
    then obtain r where "r \<in> set fitted" "\<not> fst r = None" by blast
    then have "length (filter (\<lambda>r. fst r = None) fitted) < length fitted"
      by (rule length_filter_less)
    with eq show False by (simp add: nan_rows_def)
  qed
next
  assume "\<forall>r\<in>set fitted. fst r = None"
  then have "filter (\<lambda>r. fst r = None) fitted = fitted" by simp
  then show "nan_rows fitted = length fitted" by (simp add: nan_rows_def)
qed

lemma fit_nbed_disks_rows:
  assumes loop: "fit_loop fit corr_image disk_size nan_cutoff positions = Inr fitted"
    and ok: "\<forall>r\<in>set fitted. row_ok r"
    and len: "length diff_spots = length positions"
  shows "fit_nbed_disks fit corr_image disk_size positions diff_spots nan_cutoff =
           (if \<forall>r\<in>set fitted. fst r = None
            then Inr \<lparr>fitted_disk_list = fitted, center_position = None,
                       fit_deviation = None, lcbed = None\<rparr>
            else fit_lattice (length positions) (nan_rows fitted)
                   (fitted_spots diff_spots fitted) (fitted_rows fitted))"
proof -
  have n: "length fitted = length positions" using loop by (rule fit_loop_Inr_length)
  have nc: "nan_count fitted = nan_rows fitted" using ok by (rule nan_count_rows)
  have all: "nan_rows fitted = length positions \<longleftrightarrow> (\<forall>r\<in>set fitted. fst r = None)"
    using nan_rows_all [of fitted] n by simp
  have k: "length positions - nan_rows fitted = length (fitted_rows fitted)"
    using length_fitted_rows [of fitted] n by simp
  have s: "reshape2 (mask_spots diff_spots fitted) (length positions - nan_rows fitted)
             = Inr (fitted_spots diff_spots fitted)"
    using len n ok k by (simp add: mask_spots_rows reshape2_flat2 length_fitted_spots)
  have f: "reshape2 (mask_fitted fitted) (length positions - nan_rows fitted)
             = Inr (fitted_rows fitted)"
    using ok k by (simp add: mask_fitted_rows reshape2_flat2)
  show ?thesis
    using all len s f by (simp add: fit_nbed_disks_def Let_def loop nc)
qed

lemma fit_lattice_no_center:
  assumes "\<forall>s\<in>set diff_spots. s \<noteq> (0, 0)"
  shows "fit_lattice no_pos nancount diff_spots fitted =
           Inr \<lparr>fitted_disk_list = map (\<lambda>p. (Some (fst p), Some (snd p))) fitted,
                 center_position = None, fit_deviation = None, lcbed = None\<rparr>"
proof -
  have "\<not> (fst (fst p) = 0 \<and> snd (fst p) = 0)" if "p \<in> set (zip diff_spots (flip_y fitted))" for p
    using that assms by (metis prod.collapse set_zip_leftD)
  then have "center_rows diff_spots (flip_y fitted) = []"
    by (simp add: center_rows_def)
  then show ?thesis by (simp add: fit_lattice_def Let_def)
qed

lemma fitted_spots_no_origin:
  assumes "\<forall>ii<length fitted. diff_spots ! ii = (0, 0) \<longrightarrow> fst (fitted ! ii) = None"
  shows "\<forall>s\<in>set (fitted_spots diff_spots fitted). s \<noteq> (0, 0)"
proof
  fix s assume "s \<in> set (fitted_spots diff_spots fitted)"
  then obtain p where p: "p \<in> set (zip diff_spots fitted)" "fst p = s" "fst (snd p) \<noteq> None"
    by (auto simp: fitted_spots_def)
  from p(1) obtain ii where ii: "ii < length fitted" "diff_spots ! ii = fst p" "fitted ! ii = snd p"
    by (auto simp: in_set_zip)
  with assms p(3) have "fst p \<noteq> (0, 0)" by metis
  with p(2) show "s \<noteq> (0, 0)" by simp
qed

lemma fit_loop_all_unfit:
  assumes "\<forall>pos\<in>set positions. \<exists>r. peak_ratio (region corr_image disk_size (fst pos) (snd pos)) = Inr r
              \<and> fl_less r (Fin (1 + nan_cutoff))"
  shows "fit_loop fit corr_image disk_size nan_cutoff positions
           = Inr (replicate (length positions) (None, None))"
  using assms
proof (induction positions)
  case Nil
  then show ?case by simp
next
  case (Cons pos positions)
  then obtain r where "peak_ratio (region corr_image disk_size (fst pos) (snd pos)) = Inr r"
    "fl_less r (Fin (1 + nan_cutoff))" by auto
  then have "fit_disk fit corr_image disk_size nan_cutoff pos = Inr (None, None)"
    by (simp add: fit_disk_def Let_def)
  moreover have "fit_loop fit corr_image disk_size nan_cutoff positions
           = Inr (replicate (length positions) (None, None))"
    using Cons by simp
  ultimately show ?case by simp
qed




lemmas nbed_eval = fit_nbed_disks_def fit_lattice_def fit_disk_def peak_ratio_def region_def
  region_row_def in_disk_def median_def fl_div_def nan_count_def flat2_def mask_spots_def
  mask_fitted_def reshape2_def lstsq_def dot_def matmul_n2_def row_mul_def ratio_std_def
  np_std_def mean_def enumerate_eq_zip fit_guess_def Let_def flip_y_def center_rows_def
  translate_def

section \<open>The least-squares solution\<close>

















section \<open>fit\_nbed\_disks: the failure signal and the lattice basis\<close>

text \<open>
  Claim C3, as the code has it. When no disk passes the contrast test, all four returned
  values are all-NaN (the list of fitted positions keeps its \<open>no_pos\<close> rows) and nothing is
  raised. When some disk is fitted but no fitted disk carries the Miller index \<open>(0, 0)\<close>,
  the centre, the fit deviation and the lattice basis are NaN and nothing is raised, while
  the returned list of fitted positions holds the positions of the fitted disks (the NaN
  rows are removed, as the docstring of \<open>fitted_disk_list\<close> says).
\<close>

theorem missing_center_gives_nan:
  "((\<forall>pos\<in>set positions.
       \<exists>r. peak_ratio (region corr_image disk_size (fst pos) (snd pos)) = Inr r \<and>
           fl_less r (Fin (1 + nan_cutoff))) \<longrightarrow>
     (\<exists>res. fit_nbed_disks fit corr_image disk_size positions diff_spots nan_cutoff = Inr res \<and>
        all_nan res \<and> length (fitted_disk_list res) = length positions)) \<and>
   (fit_loop fit corr_image disk_size nan_cutoff positions = Inr fitted \<and>
    (\<forall>r\<in>set fitted. row_ok r) \<and> length diff_spots = length positions \<and>
    (\<forall>ii<length fitted. diff_spots ! ii = (0, 0) \<longrightarrow> fst (fitted ! ii) = None) \<longrightarrow>
     (\<exists>res. fit_nbed_disks fit corr_image disk_size positions diff_spots nan_cutoff = Inr res \<and>
        center_position res = None \<and> fit_deviation res = None \<and> lcbed res = None \<and>
        fitted_disk_list res =
          (if \<forall>r\<in>set fitted. fst r = None then fitted
           else map (\<lambda>p. (Some (fst p), Some (snd p))) (fitted_rows fitted))))"
proof (intro conjI impI)
  assume low: "\<forall>pos\<in>set positions.
       \<exists>r. peak_ratio (region corr_image disk_size (fst pos) (snd pos)) = Inr r \<and>
           fl_less r (Fin (1 + nan_cutoff))"
  let ?nans = "replicate (length positions) (None :: real option, None :: real option)"
  have loop: "fit_loop fit corr_image disk_size nan_cutoff positions = Inr ?nans"
    using low by (rule fit_loop_all_unfit)
  have "nan_count ?nans = length positions"
    using nan_count_rows [of ?nans] nan_rows_all [of ?nans] by (simp add: row_ok_def)
  then have "fit_nbed_disks fit corr_image disk_size positions diff_spots nan_cutoff =
      Inr \<lparr>fitted_disk_list = ?nans, center_position = None, fit_deviation = None, lcbed = None\<rparr>"
    by (simp add: fit_nbed_disks_def Let_def loop)
  then show "\<exists>res. fit_nbed_disks fit corr_image disk_size positions diff_spots nan_cutoff = Inr res \<and>
        all_nan res \<and> length (fitted_disk_list res) = length positions"
    by (simp add: all_nan_def list_all_iff)
next
  assume h: "fit_loop fit corr_image disk_size nan_cutoff positions = Inr fitted \<and>
    (\<forall>r\<in>set fitted. row_ok r) \<and> length diff_spots = length positions \<and>
    (\<forall>ii<length fitted. diff_spots ! ii = (0, 0) \<longrightarrow> fst (fitted ! ii) = None)"
  then have rows: "fit_nbed_disks fit corr_image disk_size positions diff_spots nan_cutoff =
           (if \<forall>r\<in>set fitted. fst r = None
            then Inr \<lparr>fitted_disk_list = fitted, center_position = None,
                       fit_deviation = None, lcbed = None\<rparr>
            else fit_lattice (length positions) (nan_rows fitted)
                   (fitted_spots diff_spots fitted) (fitted_rows fitted))"
    by (intro fit_nbed_disks_rows) simp_all
  have "\<forall>s\<in>set (fitted_spots diff_spots fitted). s \<noteq> (0, 0)"
    using h by (intro fitted_spots_no_origin) simp
  then have "fit_lattice (length positions) (nan_rows fitted)
                   (fitted_spots diff_spots fitted) (fitted_rows fitted) =
       Inr \<lparr>fitted_disk_list = map (\<lambda>p. (Some (fst p), Some (snd p))) (fitted_rows fitted),
                 center_position = None, fit_deviation = None, lcbed = None\<rparr>"
    by (rule fit_lattice_no_center)
  with rows show "\<exists>res. fit_nbed_disks fit corr_image disk_size positions diff_spots nan_cutoff = Inr res \<and>
        center_position res = None \<and> fit_deviation res = None \<and> lcbed res = None \<and>
        fitted_disk_list res =
          (if \<forall>r\<in>set fitted. fst r = None then fitted
           else map (\<lambda>p. (Some (fst p), Some (snd p))) (fitted_rows fitted))"
    by simp
qed

lemma fit_loop_one_unfit:
  "fit_loop fit_guess [[1, 1, 3]] 1 (1 / 4) [(0, 0), (2, 0)] = Inr [(None, None), (Some 2, Some 0)]"
  by (simp add: nbed_eval upt_rec)

theorem missing_center_gives_nan_witness:
  "(\<exists>res. fit_nbed_disks fit_guess [[1, 1, 3]] 1 [(0, 0), (2, 0)] [(0, 0), (1, 0)] 1 = Inr res \<and>
      all_nan res \<and> length (fitted_disk_list res) = 2) \<and>
   (\<exists>res. fit_nbed_disks fit_guess [[1, 1, 3]] 1 [(0, 0), (2, 0)] [(0, 0), (1, 0)] (1 / 4) = Inr res \<and>
      center_position res = None \<and> fit_deviation res = None \<and> lcbed res = None \<and>
      fitted_disk_list res = [(Some 2, Some 0)])"
proof
  have low: "\<forall>pos\<in>set [(0, 0), (2 :: real, 0 :: real)].
       \<exists>r. peak_ratio (region [[1, 1, 3]] 1 (fst pos) (snd pos)) = Inr r \<and> fl_less r (Fin (1 + 1))"
    by (simp add: peak_ratio_def region_defs median_def fl_div_def upt_rec)
  from mp [OF conjunct1 [OF missing_center_gives_nan
        [of "[(0, 0), (2, 0)]" "[[1, 1, 3]]" 1 1 fit_guess "[(0, 0), (1, 0)]" "[]"]] low]
  show "\<exists>res. fit_nbed_disks fit_guess [[1, 1, 3]] 1 [(0, 0), (2, 0)] [(0, 0), (1, 0)] 1 = Inr res \<and>
      all_nan res \<and> length (fitted_disk_list res) = 2"
    by (simp add: numeral_2_eq_2)
next
  have h: "(\<forall>r\<in>set [(None, None), (Some 2, Some (0 :: real))]. row_ok r) \<and>
      length [(0 :: real, 0 :: real), (1, 0)] = length [(0 :: real, 0 :: real), (2, 0)] \<and>
      (\<forall>ii<length [(None, None), (Some (2 :: real), Some (0 :: real))].
          [(0 :: real, 0 :: real), (1, 0)] ! ii = (0, 0) \<longrightarrow>
          fst ([(None, None), (Some (2 :: real), Some (0 :: real))] ! ii) = None)"
    by (simp add: row_ok_def nth_Cons split: nat.splits)
  from mp [OF conjunct2 [OF missing_center_gives_nan [of "[(0, 0), (2, 0)]" "[[1, 1, 3]]" 1 "1 / 4"
        fit_guess "[(0, 0), (1, 0)]" "[(None, None), (Some 2, Some 0)]"]]
      conjI [OF fit_loop_one_unfit h]]
  show "\<exists>res. fit_nbed_disks fit_guess [[1, 1, 3]] 1 [(0, 0), (2, 0)] [(0, 0), (1, 0)] (1 / 4) = Inr res \<and>
      center_position res = None \<and> fit_deviation res = None \<and> lcbed res = None \<and>
      fitted_disk_list res = [(Some 2, Some 0)]"
    by (simp add: fitted_rows_def)
qed

theorem all_nan_counterexample:
  "fit_nbed_disks fit_guess [[1, 1, 3]] 1 [(0, 0), (2, 0)] [(0, 0), (1, 0)] (1 / 4) =
     Inr \<lparr>fitted_disk_list = [(Some 2, Some 0)], center_position = None,
           fit_deviation = None, lcbed = None\<rparr> \<and>
   \<not> all_nan \<lparr>fitted_disk_list = [(Some 2, Some 0)], center_position = None,
           fit_deviation = None, lcbed = None\<rparr>"
  by (simp add: nbed_eval all_nan_def upt_rec)





section \<open>Properties of the strain assemblers\<close>


lemma strain_components_spec:
  "det2 reference \<noteq> 0 \<Longrightarrow>
     strainFrom pattern_axes reference = Some (strain_components pattern_axes (inverse2 reference))"
  by (simp add: strainFrom_def strain_components_def Let_def mat_sub_def i_matrix_def)



lemma strain_loop_Inr_nth:
  "strain_loop fit lsc disk_size disk_list pos_list nan_cutoff inverse_axes patterns = Inr points \<Longrightarrow>
     ii < length patterns \<Longrightarrow>
     strain_point fit lsc disk_size disk_list pos_list nan_cutoff inverse_axes (patterns ! ii)
       = Inr (points ! ii)"
proof (induction patterns arbitrary: points ii)
  case Nil
  then show ?case by simp
next
  case (Cons p ps)
  then show ?case by (cases ii) (auto split: sum.splits)
qed

lemma strain_loop_Inr_length:
  "strain_loop fit lsc disk_size disk_list pos_list nan_cutoff inverse_axes patterns = Inr points \<Longrightarrow>
     length points = length patterns"
  by (induction patterns arbitrary: points) (auto split: sum.splits)

text \<open>
  Claim C1, as the code has it. In \<open>strain_in_ROI\<close>, for every scan point whose lattice
  basis is fitted, the emitted components are those of the reference definition
  \<open>strainFrom\<close> applied to the fitted basis and the reference axes. \<open>strain4D_general\<close>
  has another convention: with \<open>S = lstsq(peaks_mean, peaks_scan) \<cdot> rotmatrix - I\<close> it emits
  \<open>e_xx = S[0,0]\<close>, \<open>e_yy = S[1,1]\<close>, \<open>e_xy = (S[0,1] + S[1,0]) / 2\<close> and
  \<open>e_th = (S[0,1] - S[1,0]) / 2\<close>.
\<close>

theorem strain_components_as_specified:
  "(strain_loop fit lsc disk_size disk_list pos_list nan_cutoff inverse_axes patterns = Inr points \<and>
    ii < length patterns \<and>
    linalg_inv reference_axes = Inr inverse_axes \<and>
    fit_nbed_disks fit (lsc (patterns ! ii)) disk_size disk_list pos_list nan_cutoff = Inr res \<and>
    lcbed res = Some pattern_axes \<longrightarrow>
      fst (points ! ii) = strainFrom pattern_axes reference_axes \<and>
      fst (points ! ii) \<noteq> None) \<and>
   (strain4D_point peaks_mean peaks_scan rotangle = Inr s \<longrightarrow>
      (\<exists>sol. lstsq peaks_mean peaks_scan = Inr sol \<and>
         (let S = mat_sub (matmul2 sol ((cos (rotangle * pi / 180), - sin (rotangle * pi / 180)),
                                        (sin (rotangle * pi / 180), cos (rotangle * pi / 180))))
                    i_matrix
          in e_xx s = fst (fst S) \<and> e_yy s = snd (snd S) \<and>
             e_xy s = (snd (fst S) + fst (snd S)) / 2 \<and>
             e_th s = (snd (fst S) - fst (snd S)) / 2)))"
proof (intro conjI impI)
  assume h: "strain_loop fit lsc disk_size disk_list pos_list nan_cutoff inverse_axes patterns = Inr points \<and>
    ii < length patterns \<and>
    linalg_inv reference_axes = Inr inverse_axes \<and>
    fit_nbed_disks fit (lsc (patterns ! ii)) disk_size disk_list pos_list nan_cutoff = Inr res \<and>
    lcbed res = Some pattern_axes"
  then have p: "strain_point fit lsc disk_size disk_list pos_list nan_cutoff inverse_axes (patterns ! ii)
       = Inr (points ! ii)"
    by (intro strain_loop_Inr_nth) simp_all
  from h have d: "det2 reference_axes \<noteq> 0" and i: "inverse_axes = inverse2 reference_axes"
    by (auto simp: linalg_inv_def split: if_splits)
  from p h have "Inr (points ! ii)
      = (Inr (Some (strain_components pattern_axes inverse_axes), std_row (fit_deviation res))
          :: error + (strain option \<times> (nfloat \<times> nfloat)))"
    by (simp add: strain_point_def)
  then have "fst (points ! ii) = Some (strain_components pattern_axes inverse_axes)"
    by simp
  then show "fst (points ! ii) = strainFrom pattern_axes reference_axes"
    and "fst (points ! ii) \<noteq> None"
    using d i by (simp_all add: strain_components_spec)
next
  assume "strain4D_point peaks_mean peaks_scan rotangle = Inr s"
  then show "\<exists>sol. lstsq peaks_mean peaks_scan = Inr sol \<and>
         (let S = mat_sub (matmul2 sol ((cos (rotangle * pi / 180), - sin (rotangle * pi / 180)),
                                        (sin (rotangle * pi / 180), cos (rotangle * pi / 180))))
                    i_matrix
          in e_xx s = fst (fst S) \<and> e_yy s = snd (snd S) \<and>
             e_xy s = (snd (fst S) + fst (snd S)) / 2 \<and>
             e_th s = (snd (fst S) - fst (snd S)) / 2)"
    by (auto simp: strain4D_point_def Let_def split: sum.splits)
qed

theorem strain4D_general_counterexample:
  "strain4D_point [(1, 0), (0, 1)] [(11 / 10, 0), (0, 1)] 0
     = Inr \<lparr>e_xx = 1 / 10, e_xy = 0, e_th = 0, e_yy = 0\<rparr> \<and>
   strainFrom ((11 / 10, 0), (0, 1)) ((1, 0), (0, 1))
     = Some \<lparr>e_xx = - (1 / 10), e_xy = 0, e_th = 0, e_yy = 0\<rparr>"
  by (simp add: strain4D_point_def lstsq_def dot_def matmul2_def row_mul_def mat_sub_def
      i_matrix_def strainFrom_def inverse2_def det2_def)

lemma strain_loop_example:
  "strain_loop fit_guess lsc_id 0 [(0, 0), (1, 0), (0, 1)] [(0, 0), (1, 0), (0, - 1)] 0
       ((1 / 2, 0), (0, 1 / 2)) [[[1, 1], [1, 1]]] =
     Inr [(Some \<lparr>e_xx = 1 / 2, e_xy = 0, e_th = 0, e_yy = 1 / 2\<rparr>, (Some 0, Some 0))]"
  by (simp add: strain_point_def nbed_eval lsc_id_def strain_components_def matmul2_def
      mat_sub_def i_matrix_def std_row_def upt_rec)

lemma fit_nbed_disks_example:
  "fit_nbed_disks fit_guess (lsc_id [[1, 1], [1, 1]]) 0 [(0, 0), (1, 0), (0, 1)]
       [(0, 0), (1, 0), (0, - 1)] 0 =
     Inr \<lparr>fitted_disk_list = [(Some 0, Some 0), (Some 1, Some 0), (Some 0, Some 1)],
           center_position = Some (0, 0), fit_deviation = Some (Some 0, Some 0),
           lcbed = Some ((1, 0), (0, 1))\<rparr>"
  by (simp add: nbed_eval lsc_id_def upt_rec)

lemma strain4D_point_example:
  "strain4D_point [(1, 0), (0, 1)] [(11 / 10, 0), (0, 1)] 0
     = Inr \<lparr>e_xx = 1 / 10, e_xy = 0, e_th = 0, e_yy = 0\<rparr>"
  by (simp add: strain4D_point_def lstsq_def dot_def matmul2_def row_mul_def mat_sub_def
      i_matrix_def)

theorem strain_components_as_specified_witness:
  "strainFrom ((1, 0), (0, 1)) ((2, 0), (0, 2))
     = Some \<lparr>e_xx = 1 / 2, e_xy = 0, e_th = 0, e_yy = 1 / 2\<rparr> \<and>
   (\<exists>sol. lstsq [(1, 0), (0, 1)] [(11 / 10, 0), (0, 1)] = Inr sol \<and>
      fst (fst (mat_sub (matmul2 sol ((1, 0), (0, 1))) i_matrix)) = 1 / 10)"
proof -
  have i: "linalg_inv ((2, 0), (0, 2)) = Inr ((1 / 2, 0), (0, 1 / 2))"
    by (simp add: linalg_inv_def inverse2_def det2_def)
  note T = strain_components_as_specified
    [of fit_guess lsc_id 0 "[(0, 0), (1, 0), (0, 1)]" "[(0, 0), (1, 0), (0, - 1)]" 0
        "((1 / 2, 0), (0, 1 / 2))" "[[[1, 1], [1, 1]]]"
        "[(Some \<lparr>e_xx = 1 / 2, e_xy = 0, e_th = 0, e_yy = 1 / 2\<rparr>, (Some 0, Some 0))]" 0
        "((2, 0), (0, 2))"
        "\<lparr>fitted_disk_list = [(Some 0, Some 0), (Some 1, Some 0), (Some 0, Some 1)],
           center_position = Some (0, 0), fit_deviation = Some (Some 0, Some 0),
           lcbed = Some ((1, 0), (0, 1))\<rparr>"
        "((1, 0), (0, 1))" "[(1, 0), (0, 1)]" "[(11 / 10, 0), (0, 1)]" 0
        "\<lparr>e_xx = 1 / 10, e_xy = 0, e_th = 0, e_yy = 0\<rparr>"]
  from T [THEN conjunct1] strain_loop_example fit_nbed_disks_example i
  have a: "strainFrom ((1, 0), (0, 1)) ((2, 0), (0, 2))
     = Some \<lparr>e_xx = 1 / 2, e_xy = 0, e_th = 0, e_yy = 1 / 2\<rparr>"
    by simp
  from T [THEN conjunct2] strain4D_point_example
  have b: "\<exists>sol. lstsq [(1, 0), (0, 1)] [(11 / 10, 0), (0, 1)] = Inr sol \<and>
      fst (fst (mat_sub (matmul2 sol ((1, 0), (0, 1))) i_matrix)) = 1 / 10"
    by (auto simp: Let_def)
  from a b show ?thesis by (rule conjI)
qed

section \<open>Properties of the strain maps\<close>

lemma length_scatter [simp]: "length (scatter m vs d) = length m"
  by (induction m vs d rule: scatter.induct) simp_all

lemma scatter_nth:
  "i < length m \<Longrightarrow>
     scatter m vs d ! i =
       (if m ! i \<and> count_true (take i m) < length vs then vs ! count_true (take i m) else d)"
proof (induction m vs d arbitrary: i rule: scatter.induct)
  case (1 vs d)
  then show ?case by simp
next
  case (2 m vs d)
  then show ?case by (cases i) (simp_all add: count_true_def)
next
  case (3 m d)
  then show ?case by (cases i) (simp_all add: count_true_def)
next
  case (4 m v vs d)
  then show ?case by (cases i) (simp_all add: count_true_def)
qed

lemma length_scatter_rows [simp]: "length (scatter_rows ROI vs d) = length ROI"
  by (induction ROI arbitrary: vs) simp_all

lemma scatter_rows_nth:
  "y < length ROI \<Longrightarrow>
     scatter_rows ROI vs d ! y =
       scatter (ROI ! y) (take (count_true (ROI ! y)) (drop (count_true (concat (take y ROI))) vs)) d"
proof (induction ROI arbitrary: vs y)
  case Nil
  then show ?case by simp
next
  case (Cons r rs)
  show ?case
  proof (cases y)
    case 0
    then show ?thesis by (simp add: count_true_def)
  next
    case (Suc y')
    then have "y' < length rs" using Cons.prems by simp
    from Cons.IH [OF this, of "drop (count_true r) vs"] Suc
    show ?thesis by (simp add: count_true_def add.commute)
  qed
qed

lemma count_true_take_less:
  "x < length r \<Longrightarrow> r ! x \<Longrightarrow> count_true (take x r) < count_true r"
proof (induction r arbitrary: x)
  case Nil
  then show ?case by simp
next
  case (Cons b r)
  then show ?case by (cases x) (auto simp: count_true_def)
qed

lemma strain_map_shape:
  "length (strain_map ROI e_ROI) = length ROI \<and>
   (\<forall>y<length ROI. length (strain_map ROI e_ROI ! y) = length (ROI ! y))"
  by (simp add: strain_map_def nan_to_zero_def scatter_rows_nth)

lemma strain_map_nth:
  assumes y: "y < length ROI" and x: "x < length (ROI ! y)"
  shows "strain_map ROI e_ROI ! y ! x =
           (if ROI ! y ! x \<and> roi_index ROI y x < length e_ROI
            then (case e_ROI ! roi_index ROI y x of None \<Rightarrow> 0 | Some v \<Rightarrow> v)
            else 0)"
proof -
  let ?n = "count_true (concat (take y ROI))"
  let ?k = "count_true (take x (ROI ! y))"
  let ?vs = "take (count_true (ROI ! y)) (drop ?n e_ROI)"
  have row: "scatter_rows ROI e_ROI None ! y = scatter (ROI ! y) ?vs None"
    using y by (rule scatter_rows_nth)
  have sc: "scatter (ROI ! y) ?vs None ! x =
      (if ROI ! y ! x \<and> ?k < length ?vs then ?vs ! ?k else None)"
    using x by (rule scatter_nth)
  have idx: "roi_index ROI y x = ?n + ?k"
    by (simp add: roi_index_def count_true_def)
  have "strain_map ROI e_ROI ! y ! x =
      (case scatter (ROI ! y) ?vs None ! x of None \<Rightarrow> 0 | Some v \<Rightarrow> v)"
    using y x by (simp add: strain_map_def nan_to_zero_def row)
  also have "\<dots> = (if ROI ! y ! x \<and> roi_index ROI y x < length e_ROI
            then (case e_ROI ! roi_index ROI y x of None \<Rightarrow> 0 | Some v \<Rightarrow> v)
            else 0)"
  proof (cases "ROI ! y ! x")
    case False
    then show ?thesis by (simp add: sc)
  next
    case True
    have lt: "?k < count_true (ROI ! y)" using x True by (rule count_true_take_less)
    show ?thesis
    proof (cases "?n + ?k < length e_ROI")
      case in_range: True
      then have "?k < length ?vs" using lt by simp
      then have "scatter (ROI ! y) ?vs None ! x = ?vs ! ?k" using True sc by presburger
      moreover have "?vs ! ?k = e_ROI ! (?n + ?k)" using lt in_range by simp
      ultimately have "scatter (ROI ! y) ?vs None ! x = e_ROI ! roi_index ROI y x"
        by (simp only: idx)
      then show ?thesis using True in_range by (simp only: idx if_True simp_thms)
    next
      case out: False
      then have "\<not> ?k < length ?vs" by simp
      then have "scatter (ROI ! y) ?vs None ! x = None" using sc by presburger
      then show ?thesis using out by (simp only: idx option.case simp_thms if_False)
    qed
  qed
  finally show ?thesis .
qed

end
